theory Spec2Isabelle
  imports Main
begin

section \<open>Package errorx: the error value\<close>

text \<open>
  \<^verbatim>\<open>type ErrType string\<close> with its seven constants, \<^verbatim>\<open>type Frame struct\<close> and
  \<^verbatim>\<open>type Stack []Frame\<close>. Go's \<^verbatim>\<open>int\<close> fields are only stored and read back, never
  computed with, so they are modelled as \<open>int\<close>.
\<close>

type_synonym ErrType = string

definition ErrTypeNotFound :: ErrType where
  "ErrTypeNotFound = ''not_found''"

definition ErrTypeTimeout :: ErrType where
  "ErrTypeTimeout = ''timeout''"

definition ErrTypeInvalid :: ErrType where
  "ErrTypeInvalid = ''invalid''"

definition ErrTypeConflict :: ErrType where
  "ErrTypeConflict = ''conflict''"

definition ErrTypePermission :: ErrType where
  "ErrTypePermission = ''permission_denied''"

definition ErrTypeInternal :: ErrType where
  "ErrTypeInternal = ''internal_error''"

definition ErrTypeUnavailable :: ErrType where
  "ErrTypeUnavailable = ''unavailable''"

record Frame =
  Name :: string
  File :: string
  Line :: int

type_synonym Stack = "Frame list"

text \<open>
  \<^verbatim>\<open>type customError struct { msg; code; errType; stack; cause error }\<close>.
  The field \<^verbatim>\<open>cause\<close> has the interface type \<^verbatim>\<open>error\<close>: it is nil (\<open>None\<close>), a
  \<^verbatim>\<open>*customError\<close> (\<open>ErrCustom\<close>), or a value of an error type declared outside this
  package, which is represented by the text its \<^verbatim>\<open>Error()\<close> method returns
  (\<open>ErrOther\<close>). The fields stand in the order of the struct declaration.
\<close>

datatype customError =
  CustomError (msg: string) (code: int) (errType: ErrType) (stack: Stack) (cause: "error option")
and error =
  ErrCustom customError
| ErrOther string

text \<open>The methods of \<^verbatim>\<open>*customError\<close>, which make it an \<^verbatim>\<open>errorx.Error\<close>.\<close>

definition customError_Error :: "customError \<Rightarrow> string" where
  "customError_Error e = msg e"

definition customError_Unwrap :: "customError \<Rightarrow> error option" where
  "customError_Unwrap e = cause e"

definition customError_Cause :: "customError \<Rightarrow> error option" where
  "customError_Cause e = cause e"

definition customError_Code :: "customError \<Rightarrow> int" where
  "customError_Code e = code e"

definition customError_Type :: "customError \<Rightarrow> ErrType" where
  "customError_Type e = errType e"

definition customError_Stack :: "customError \<Rightarrow> Stack" where
  "customError_Stack e = stack e"

text \<open>\<^verbatim>\<open>err.Error()\<close> on a non-nil value of the interface type \<^verbatim>\<open>error\<close>.\<close>

fun error_Error :: "error \<Rightarrow> string" where
  "error_Error (ErrCustom e) = customError_Error e"
| "error_Error (ErrOther s) = s"

text \<open>
  \<^verbatim>\<open>captureStack\<close> reads the call stack of the running goroutine through
  \<^verbatim>\<open>runtime.Caller(i)\<close>. The call stack is a parameter \<open>rt\<close> of the model: the frames
  as \<^verbatim>\<open>runtime.Caller\<close> numbers them inside \<^verbatim>\<open>captureStack\<close>, so index 0 is
  \<^verbatim>\<open>captureStack\<close> itself and index 1 its caller. \<^verbatim>\<open>runtime.Caller\<close> reports
  \<^verbatim>\<open>ok = false\<close> past the outermost frame.
\<close>

definition runtime_Caller :: "Frame list \<Rightarrow> nat \<Rightarrow> Frame option" where
  "runtime_Caller rt i = (if i < length rt then Some (rt ! i) else None)"

text \<open>The loop \<^verbatim>\<open>for i := 2; ; i++\<close>: it ends at the first \<^verbatim>\<open>!ok\<close>.\<close>

function captureStack_loop :: "Frame list \<Rightarrow> nat \<Rightarrow> Stack \<Rightarrow> Stack" where
  "captureStack_loop rt i st =
     (case runtime_Caller rt i of
        None \<Rightarrow> st
      | Some fr \<Rightarrow> captureStack_loop rt (i + 1) (st @ [fr]))"
  by pat_completeness auto
termination
  by (relation "measure (\<lambda>(rt, i, st). length rt - i)")
     (auto simp: runtime_Caller_def split: if_splits)

definition captureStack :: "Frame list \<Rightarrow> Stack" where
  "captureStack rt = captureStack_loop rt 2 []"

text \<open>
  \<^verbatim>\<open>Wrap\<close>, \<^verbatim>\<open>New\<close> and \<^verbatim>\<open>C\<close>. A composite literal leaves the fields it does not
  name at their zero values: \<open>0\<close> for \<^verbatim>\<open>code\<close>, the empty string for \<^verbatim>\<open>errType\<close>, nil
  for \<^verbatim>\<open>cause\<close>. The result type \<^verbatim>\<open>Error\<close> is an interface, so \<^verbatim>\<open>Wrap\<close> returns an
  option: \<open>None\<close> is the nil interface value.
\<close>

definition Wrap :: "Frame list \<Rightarrow> error option \<Rightarrow> customError option" where
  "Wrap rt err =
     (case err of
        None \<Rightarrow> None
      | Some e \<Rightarrow> Some (CustomError (error_Error e) 0 [] (captureStack rt) (Some e)))"

definition New :: "Frame list \<Rightarrow> string \<Rightarrow> customError" where
  "New rt m = CustomError m 0 [] (captureStack rt) None"

definition C :: "Frame list \<Rightarrow> int \<Rightarrow> string \<Rightarrow> customError" where
  "C rt c m = CustomError m c [] (captureStack rt) None"

section \<open>Package config: the holder\<close>

text \<open>
  \<^verbatim>\<open>type localManager[T any] struct { data T; mu sync.RWMutex; callback func(T) }\<close>.
  The model is sequential: every method holds \<^verbatim>\<open>mu\<close> from its first statement to its
  return, so a method body is one atomic step on the holder and \<^verbatim>\<open>mu\<close> has no field of
  its own. A callback \<^verbatim>\<open>func(T)\<close> returns nothing and acts by its effect on the
  program around the holder: it is a function from the argument and the state \<open>'w\<close> of
  that surrounding program to the new state. The nil callback is \<open>None\<close>. A callback
  has no access to the store of holders: one that called back into its own holder
  would block on \<^verbatim>\<open>mu\<close> forever, and the model leaves such callbacks out.
\<close>

record ('t, 'w) localManager =
  data :: 't
  callback :: "('t \<Rightarrow> 'w \<Rightarrow> 'w) option"

text \<open>
  Holders are reached through pointers (\<^verbatim>\<open>*localManager[T]\<close>), and \<^verbatim>\<open>Watch\<close> and
  \<^verbatim>\<open>InitData\<close> return the receiver itself. The store is the list of the holders
  allocated so far; a pointer is an index into it. A pointer that addresses no holder
  (Go's nil receiver) makes the first field access panic. A value of the interface
  type \<^verbatim>\<open>Manager[T]\<close> is \<open>None\<close> (the nil interface) or \<open>Some m\<close> for a pointer \<open>m\<close>.
  The second panic of the package is the one of \<^verbatim>\<open>reflect.Zero\<close> on the nil
  \<^verbatim>\<open>reflect.Type\<close> (\<^verbatim>\<open>reflect: Zero(nil)\<close>).
\<close>

type_synonym ('t, 'w) store = "('t, 'w) localManager list"

datatype panic = NilPointerDereference | ReflectZeroNil

definition Get :: "nat \<Rightarrow> ('t, 'w) store \<Rightarrow> panic + 't" where
  "Get m h = (if m < length h then Inr (data (h ! m)) else Inl NilPointerDereference)"

text \<open>
  \<^verbatim>\<open>Update\<close> returns an \<^verbatim>\<open>errorx.Error\<close> (here always nil), the store and the state
  of the surrounding program after the callback has run.
\<close>

definition Update ::
  "nat \<Rightarrow> 't \<Rightarrow> ('t, 'w) store \<Rightarrow> 'w \<Rightarrow> panic + (customError option \<times> ('t, 'w) store \<times> 'w)" where
  "Update m newData h w =
     (if m < length h then
        let h' = h[m := (h ! m)\<lparr>data := newData\<rparr>] in
        (case callback (h' ! m) of
           None \<Rightarrow> Inr (None, h', w)
         | Some cb \<Rightarrow> Inr (None, h', cb newData w))
      else Inl NilPointerDereference)"

text \<open>
  The closure \<^verbatim>\<open>func() { ...; m.callback = nil }\<close> that \<^verbatim>\<open>OnChange\<close> returns. It
  captures the receiver \<^verbatim>\<open>m\<close> and nothing else.
\<close>

definition OnChange_cancel :: "nat \<Rightarrow> ('t, 'w) store \<Rightarrow> panic + ('t, 'w) store" where
  "OnChange_cancel m h =
     (if m < length h then Inr (h[m := (h ! m)\<lparr>callback := None\<rparr>])
      else Inl NilPointerDereference)"

text \<open>
  \<^verbatim>\<open>OnChange\<close> stores its argument as it comes. The argument is a value of the type
  \<^verbatim>\<open>func(T)\<close>, so it may be nil (\<open>None\<close>); a callback proper is \<open>Some cb\<close>.
\<close>

definition OnChange ::
  "nat \<Rightarrow> ('t \<Rightarrow> 'w \<Rightarrow> 'w) option \<Rightarrow> ('t, 'w) store \<Rightarrow>
     panic + ((('t, 'w) store \<Rightarrow> panic + ('t, 'w) store) \<times> ('t, 'w) store)" where
  "OnChange m cb h =
     (if m < length h then
        Inr (OnChange_cancel m, h[m := (h ! m)\<lparr>callback := cb\<rparr>])
      else Inl NilPointerDereference)"

definition Watch :: "nat \<Rightarrow> nat option" where
  "Watch m = Some m"

text \<open>
  \<^verbatim>\<open>isZeroValue\<close> is
  \<^verbatim>\<open>reflect.DeepEqual(value, reflect.Zero(reflect.TypeOf(value)).Interface())\<close>.
  Package \<^verbatim>\<open>reflect\<close> belongs to Go's library; what it does on the values of the
  element type \<^verbatim>\<open>T\<close> is a parameter of the model, a record of two functions.
  \<^item> \<open>reflect_TypeOf\<close>: the \<^verbatim>\<open>reflect.Type\<close> of a value of \<^verbatim>\<open>T\<close> after its conversion
    to \<^verbatim>\<open>any\<close>, that is the dynamic type of the value. It is nil (\<open>None\<close>) for the nil
    value of an interface type.
  \<^item> \<open>reflect_Zero\<close>: the zero value of a \<^verbatim>\<open>reflect.Type\<close>, as a value of \<^verbatim>\<open>T\<close>.
    \<^verbatim>\<open>reflect.Zero\<close> panics on the nil \<^verbatim>\<open>reflect.Type\<close>; that case is a branch of
    \<open>isZeroValue\<close> below.

  \<^verbatim>\<open>reflect.DeepEqual\<close> is equality of the model's values: the element types modelled
  here are numbers, strings, structs of these, and interface values that hold them.
\<close>

record ('t, 'k) reflection =
  reflect_TypeOf :: "'t \<Rightarrow> 'k option"
  reflect_Zero :: "'k \<Rightarrow> 't"

definition reflect_DeepEqual :: "'t \<Rightarrow> 't \<Rightarrow> bool" where
  "reflect_DeepEqual x y = (x = y)"

definition isZeroValue :: "('t, 'k) reflection \<Rightarrow> 't \<Rightarrow> panic + bool" where
  "isZeroValue rf v =
     (case reflect_TypeOf rf v of
        None \<Rightarrow> Inl ReflectZeroNil
      | Some k \<Rightarrow> Inr (reflect_DeepEqual v (reflect_Zero rf k)))"

text \<open>
  \<^verbatim>\<open>InitData\<close> for the element type whose reflection is \<open>rf\<close>. A panic of
  \<^verbatim>\<open>isZeroValue\<close> leaves the method before any assignment.
\<close>

definition InitData ::
  "('t, 'k) reflection \<Rightarrow> nat \<Rightarrow> 't \<Rightarrow> ('t, 'w) store \<Rightarrow>
     panic + (nat option \<times> ('t, 'w) store)" where
  "InitData rf m initialData h =
     (if m < length h then
        (case isZeroValue rf (data (h ! m)) of
           Inl p \<Rightarrow> Inl p
         | Inr z \<Rightarrow>
             (if z then Inr (Some m, h[m := (h ! m)\<lparr>data := initialData\<rparr>])
              else Inr (Some m, h)))
      else Inl NilPointerDereference)"

text \<open>
  The reflection of an element type \<^verbatim>\<open>T\<close> that is not an interface type (a number,
  a string, a struct): every value has the one dynamic type \<^verbatim>\<open>T\<close>, and the zero
  value of that type is the zero value of \<^verbatim>\<open>T\<close> (the \<open>0\<close> of class \<open>zero\<close>).
\<close>

definition concreteT :: "('t::zero, unit) reflection" where
  "concreteT = \<lparr>reflect_TypeOf = (\<lambda>v. Some ()), reflect_Zero = (\<lambda>k. 0)\<rparr>"

text \<open>
  The element type \<^verbatim>\<open>any\<close>, with the values a client stores in such a holder here: the
  nil interface, an \<^verbatim>\<open>int\<close> and a \<^verbatim>\<open>string\<close>. The zero value of the type \<^verbatim>\<open>any\<close> is
  the nil interface. The reflection of \<^verbatim>\<open>any\<close> works on the dynamic type:
  \<^verbatim>\<open>reflect.TypeOf\<close> is nil on the nil interface, and the zero value of the dynamic
  type \<^verbatim>\<open>int\<close> is \<^verbatim>\<open>any(0)\<close>, of \<^verbatim>\<open>string\<close> it is \<^verbatim>\<open>any("")\<close>.
\<close>

datatype any = AnyNil | AnyInt int | AnyString string

instantiation any :: zero
begin

definition zero_any :: any where
  "zero_any = AnyNil"

instance ..

end

datatype reflect_Type = TypeInt | TypeString

fun any_TypeOf :: "any \<Rightarrow> reflect_Type option" where
  "any_TypeOf AnyNil = None"
| "any_TypeOf (AnyInt i) = Some TypeInt"
| "any_TypeOf (AnyString s) = Some TypeString"

fun any_Zero :: "reflect_Type \<Rightarrow> any" where
  "any_Zero TypeInt = AnyInt 0"
| "any_Zero TypeString = AnyString []"

definition anyT :: "(any, reflect_Type) reflection" where
  "anyT = \<lparr>reflect_TypeOf = any_TypeOf, reflect_Zero = any_Zero\<rparr>"

text \<open>\<^verbatim>\<open>Local\<close> allocates \<^verbatim>\<open>&localManager[T]{}\<close>: every field at its zero value.\<close>

definition Local :: "('t::zero, 'w) store \<Rightarrow> nat option \<times> ('t, 'w) store" where
  "Local h = (Some (length h), h @ [\<lparr>data = 0, callback = None\<rparr>])"

text \<open>
  \<^verbatim>\<open>Etcd\<close> is \<^verbatim>\<open>return nil\<close>: it touches no holder and cannot panic. Its outcome has
  the shape of the other calls' outcomes (a panic or the returned \<^verbatim>\<open>Manager[T]\<close>).
\<close>

definition Etcd :: "panic + nat option" where
  "Etcd = Inr None"

section \<open>Package main: the element type in use\<close>

text \<open>
  \<^verbatim>\<open>type Secret string\<close> and \<^verbatim>\<open>type Config struct { Secret Secret }\<close>. The zero
  value of \<^verbatim>\<open>Config\<close> is the struct whose \<^verbatim>\<open>Secret\<close> is the empty string.
\<close>

type_synonym Secret = string

datatype Config = Config (Secret: Secret)

instantiation Config :: zero
begin

definition zero_Config :: Config where
  "zero_Config = Config []"

instance ..

end

section \<open>Clients of a holder\<close>

text \<open>
  An observer that a client may register: it appends its own tag and the value it
  was called with to a log, so the log tells which observer ran, how often and with
  which argument.
\<close>

definition recorder :: "'c \<Rightarrow> 't \<Rightarrow> ('c \<times> 't) list \<Rightarrow> ('c \<times> 't) list" where
  "recorder c v tr = tr @ [(c, v)]"

text \<open>
  A client's calls on one holder \<open>m\<close>, run one after the other; a panic ends the run.
  \<open>CallCancel\<close> calls a handle that an earlier \<^verbatim>\<open>OnChange\<close> on \<open>m\<close> returned (every such
  handle is the closure \<open>OnChange_cancel m\<close>). The values that \<^verbatim>\<open>Get\<close>, \<^verbatim>\<open>Watch\<close> and
  \<^verbatim>\<open>InitData\<close> return are dropped: only the store and the surrounding state go on.
  \<open>rf\<close> is the reflection of the holder's element type.
\<close>

datatype ('t, 'w) call =
  CallGet
| CallUpdate 't
| CallOnChange "('t \<Rightarrow> 'w \<Rightarrow> 'w) option"
| CallCancel
| CallWatch
| CallInitData 't

fun step ::
  "('t, 'k) reflection \<Rightarrow> nat \<Rightarrow> ('t, 'w) call \<Rightarrow> ('t, 'w) store \<times> 'w \<Rightarrow>
     panic + (('t, 'w) store \<times> 'w)" where
  "step rf m CallGet (h, w) =
     (case Get m h of Inl p \<Rightarrow> Inl p | Inr v \<Rightarrow> Inr (h, w))"
| "step rf m (CallUpdate v) (h, w) =
     (case Update m v h w of Inl p \<Rightarrow> Inl p | Inr (e, h', w') \<Rightarrow> Inr (h', w'))"
| "step rf m (CallOnChange cb) (h, w) =
     (case OnChange m cb h of Inl p \<Rightarrow> Inl p | Inr (cancel, h') \<Rightarrow> Inr (h', w))"
| "step rf m CallCancel (h, w) =
     (case OnChange_cancel m h of Inl p \<Rightarrow> Inl p | Inr h' \<Rightarrow> Inr (h', w))"
| "step rf m CallWatch (h, w) = (let r = Watch m in Inr (h, w))"
| "step rf m (CallInitData v) (h, w) =
     (case InitData rf m v h of Inl p \<Rightarrow> Inl p | Inr (r, h') \<Rightarrow> Inr (h', w))"

fun run ::
  "('t, 'k) reflection \<Rightarrow> nat \<Rightarrow> ('t, 'w) call list \<Rightarrow> ('t, 'w) store \<times> 'w \<Rightarrow>
     panic + (('t, 'w) store \<times> 'w)" where
  "run rf m [] s = Inr s"
| "run rf m (c # cs) s =
     (case step rf m c s of Inl p \<Rightarrow> Inl p | Inr s' \<Rightarrow> run rf m cs s')"

section \<open>The captured stack\<close>

declare captureStack_loop.simps [simp del]

lemma captureStack_loop_drop: "captureStack_loop rt i st = st @ drop i rt"
proof (induction rt i st rule: captureStack_loop.induct)
  case (1 rt i st)
  show ?case
  proof (cases "i < length rt")
    case True
    then have "captureStack_loop rt i st = captureStack_loop rt (i + 1) (st @ [rt ! i])"
      by (subst captureStack_loop.simps) (simp add: runtime_Caller_def)
    also have "\<dots> = (st @ [rt ! i]) @ drop (i + 1) rt"
      using True 1 by (simp add: runtime_Caller_def)
    also have "\<dots> = st @ drop i rt"
      using True by (simp add: Cons_nth_drop_Suc)
    finally show ?thesis .
  next
    case False
    then show ?thesis
      by (subst captureStack_loop.simps) (simp add: runtime_Caller_def)
  qed
qed

lemma captureStack_drop: "captureStack rt = drop 2 rt"
  by (simp add: captureStack_def captureStack_loop_drop)

section \<open>Wrapping an error\<close>

text \<open>
  Claim C7. \<^verbatim>\<open>Wrap(nil)\<close> returns nil. For every non-nil \<^verbatim>\<open>err\<close>, \<^verbatim>\<open>Wrap(err)\<close>
  returns a non-nil \<^verbatim>\<open>Error\<close> whose \<^verbatim>\<open>Cause()\<close> is \<^verbatim>\<open>err\<close> and whose \<^verbatim>\<open>Error()\<close>
  text is the text of \<^verbatim>\<open>err.Error()\<close>. This holds for every call stack \<open>rt\<close>.
\<close>

theorem Wrap_nil_and_cause:
  "Wrap rt None = None \<and>
   (\<forall>err. \<exists>e. Wrap rt (Some err) = Some e \<and> customError_Cause e = Some err \<and>
      customError_Error e = error_Error err)"
  by (simp add: Wrap_def customError_Cause_def customError_Error_def)

text \<open>
  The theorem of C7 at a call of \<^verbatim>\<open>Wrap\<close> from \<^verbatim>\<open>main\<close>, on nil and on an error of a
  type from outside the package.
\<close>

theorem Wrap_nil_and_cause_witness:
  "Wrap [\<lparr>Name = ''errorx.captureStack'', File = ''errorx.go'', Line = 85\<rparr>,
         \<lparr>Name = ''errorx.Wrap'', File = ''errorx.go'', Line = 109\<rparr>,
         \<lparr>Name = ''main.main'', File = ''main.go'', Line = 38\<rparr>] None = None \<and>
   (\<exists>e. Wrap [\<lparr>Name = ''errorx.captureStack'', File = ''errorx.go'', Line = 85\<rparr>,
         \<lparr>Name = ''errorx.Wrap'', File = ''errorx.go'', Line = 109\<rparr>,
         \<lparr>Name = ''main.main'', File = ''main.go'', Line = 38\<rparr>]
        (Some (ErrOther ''unexpected EOF'')) = Some e \<and>
      customError_Cause e = Some (ErrOther ''unexpected EOF'') \<and>
      customError_Error e = ''unexpected EOF'')"
  using Wrap_nil_and_cause [of "[\<lparr>Name = ''errorx.captureStack'', File = ''errorx.go'', Line = 85\<rparr>,
         \<lparr>Name = ''errorx.Wrap'', File = ''errorx.go'', Line = 109\<rparr>,
         \<lparr>Name = ''main.main'', File = ''main.go'', Line = 38\<rparr>]"]
  by (metis error_Error.simps(2))

text \<open>
  Claim C10. For every non-nil \<^verbatim>\<open>err\<close>, also one that is itself a \<^verbatim>\<open>*customError\<close>
  with a code other than 0 or a type tag other than the empty one, the \<^verbatim>\<open>Error\<close> that
  \<^verbatim>\<open>Wrap(err)\<close> returns has \<^verbatim>\<open>Code()\<close> 0 and the empty \<^verbatim>\<open>Type()\<close>: neither is taken
  over from the cause.
\<close>

theorem Wrap_code_type_zero:
  "\<exists>e. Wrap rt (Some err) = Some e \<and> customError_Code e = 0 \<and> customError_Type e = []"
  by (simp add: Wrap_def customError_Code_def customError_Type_def)

text \<open>
  The theorem of C10 at a cause that carries the code 1001 and the tag
  \<open>ErrTypeInvalid\<close>.
\<close>

theorem Wrap_code_type_zero_witness:
  "\<exists>e. Wrap [\<lparr>Name = ''errorx.captureStack'', File = ''errorx.go'', Line = 85\<rparr>,
         \<lparr>Name = ''errorx.Wrap'', File = ''errorx.go'', Line = 109\<rparr>,
         \<lparr>Name = ''main.main'', File = ''main.go'', Line = 38\<rparr>]
       (Some (ErrCustom (CustomError ''invalid secret abc'' 1001 ErrTypeInvalid [] None)))
       = Some e \<and>
     customError_Code e = 0 \<and> customError_Type e = [] \<and>
     customError_Code (CustomError ''invalid secret abc'' 1001 ErrTypeInvalid [] None) = 1001 \<and>
     customError_Type (CustomError ''invalid secret abc'' 1001 ErrTypeInvalid [] None) = ''invalid''"
  using Wrap_code_type_zero [of "[\<lparr>Name = ''errorx.captureStack'', File = ''errorx.go'', Line = 85\<rparr>,
         \<lparr>Name = ''errorx.Wrap'', File = ''errorx.go'', Line = 109\<rparr>,
         \<lparr>Name = ''main.main'', File = ''main.go'', Line = 38\<rparr>]"
      "ErrCustom (CustomError ''invalid secret abc'' 1001 ErrTypeInvalid [] None)"]
  by (simp add: customError_Code_def customError_Type_def ErrTypeInvalid_def)

section \<open>Reading and replacing the value\<close>

text \<open>
  Claim C1. For every holder \<open>m\<close> of the store and every value \<open>v\<close>, \<^verbatim>\<open>Update(v)\<close>
  returns the nil error and leaves a store in which \<^verbatim>\<open>Get()\<close> returns exactly \<open>v\<close>.
\<close>

theorem Update_then_Get:
  assumes "m < length h"
  shows "\<exists>h' w'. Update m v h w = Inr (None, h', w') \<and> Get m h' = Inr v"
  using assms by (cases "callback (h ! m)") (simp_all add: Update_def Get_def Let_def)

text \<open>The theorem of C1 on a holder fresh from \<^verbatim>\<open>Local\<close>, as \<^verbatim>\<open>main\<close> updates it.\<close>

theorem Update_then_Get_witness:
  "(0::nat) < length (snd (Local ([] :: (Config, unit) store))) \<and>
   (\<exists>h' w'. Update 0 (Config ''updated secret'') (snd (Local ([] :: (Config, unit) store))) ()
        = Inr (None, h', w') \<and>
      Get 0 h' = Inr (Config ''updated secret''))"
  using Update_then_Get [of 0 "snd (Local ([] :: (Config, unit) store))"
      "Config ''updated secret''" "()"]
  by (simp add: Local_def)

section \<open>Initialising an empty holder\<close>

text \<open>
  On an element type that is not an interface type the zero test is the comparison
  with the zero value of the type.
\<close>

lemma isZeroValue_concreteT: "isZeroValue concreteT v = Inr (v = 0)"
  by (simp add: isZeroValue_def concreteT_def reflect_DeepEqual_def)

text \<open>
  For such an element type \<^verbatim>\<open>InitData(v)\<close> stores \<open>v\<close> (and changes nothing else in
  the store) when the stored value is the zero value, and leaves the whole store as it
  was when it is not. In both cases the \<^verbatim>\<open>Manager\<close> returned is the receiver \<open>m\<close>
  itself, the same value that \<^verbatim>\<open>Watch\<close> returns.
\<close>

lemma InitData_concreteT:
  assumes "m < length h"
  shows "(data (h ! m) = 0 \<longrightarrow>
            InitData concreteT m v h = Inr (Watch m, h[m := (h ! m)\<lparr>data := v\<rparr>]) \<and>
            Get m (h[m := (h ! m)\<lparr>data := v\<rparr>]) = Inr v) \<and>
         (data (h ! m) \<noteq> 0 \<longrightarrow> InitData concreteT m v h = Inr (Watch m, h))"
  using assms by (simp add: InitData_def isZeroValue_concreteT Get_def Watch_def)

text \<open>
  For every reflection \<open>rf\<close>, \<^verbatim>\<open>InitData\<close> on an allocated holder follows the outcome
  of the zero test: it panics where the test panics, stores where the test says
  zero, and leaves the store alone where the test says non-zero.
\<close>

lemma InitData_cases:
  assumes "m < length h"
  shows "InitData rf m v h =
           (case isZeroValue rf (data (h ! m)) of
              Inl p \<Rightarrow> Inl p
            | Inr z \<Rightarrow> Inr (Some m, if z then h[m := (h ! m)\<lparr>data := v\<rparr>] else h))"
  using assms by (simp add: InitData_def split: sum.split)

text \<open>
  Claim C2 says, for every holder, that \<^verbatim>\<open>InitData(v)\<close> stores \<open>v\<close> when the stored
  value is the zero value of \<^verbatim>\<open>T\<close> and leaves a non-zero value alone. The code does
  not do so on a holder of an interface type. On \<^verbatim>\<open>Local[any]()\<close> the stored value is
  the zero value of \<^verbatim>\<open>any\<close>, the nil interface, and \<^verbatim>\<open>InitData(1)\<close> panics in
  \<^verbatim>\<open>reflect.Zero\<close> where the claim has it store 1. On a holder of \<^verbatim>\<open>any\<close> that stores
  \<^verbatim>\<open>any(0)\<close>, which is not the zero value of \<^verbatim>\<open>any\<close>, \<^verbatim>\<open>InitData(1)\<close> replaces the
  value where the claim has it left alone.
\<close>

theorem InitData_any_diverges:
  "(0 :: any) = AnyNil \<and>
   Get 0 (snd (Local ([] :: (any, unit) store))) = Inr AnyNil \<and>
   InitData anyT 0 (AnyInt 1) (snd (Local ([] :: (any, unit) store))) = Inl ReflectZeroNil \<and>
   AnyInt 0 \<noteq> (0 :: any) \<and>
   InitData anyT 0 (AnyInt 1)
       [\<lparr>data = AnyInt 0, callback = None :: (any \<Rightarrow> unit \<Rightarrow> unit) option\<rparr>]
     = Inr (Some 0, [\<lparr>data = AnyInt 1, callback = None\<rparr>])"
  by (simp add: Local_def Get_def InitData_def isZeroValue_def anyT_def zero_any_def
      reflect_DeepEqual_def)

section \<open>The observer\<close>

text \<open>
  Claim C3. For every holder \<open>m\<close>, callback \<open>cb\<close> and value \<open>v\<close>: after
  \<^verbatim>\<open>OnChange(cb)\<close>, the call \<^verbatim>\<open>Update(v)\<close> runs \<open>cb\<close> once on the argument \<open>v\<close> before
  it returns: the state of the surrounding program that \<^verbatim>\<open>Update\<close> hands back is
  \<open>cb v w\<close>, where \<open>w\<close> is the state it was called in. The call returns the nil error and
  has stored \<open>v\<close>.
\<close>

theorem OnChange_then_Update:
  assumes "m < length h"
  shows "\<exists>cancel h1 h2. OnChange m (Some cb) h = Inr (cancel, h1) \<and>
           Update m v h1 w = Inr (None, h2, cb v w) \<and> Get m h2 = Inr v"
  using assms by (simp add: OnChange_def Update_def Get_def Let_def)

text \<open>
  The theorem of C3 with an observer that logs its calls: after the \<^verbatim>\<open>Update\<close> the log
  holds one entry, the observer's tag with the new value.
\<close>

theorem OnChange_then_Update_witness:
  "(0::nat) < length (snd (Local ([] :: (Config, (nat \<times> Config) list) store))) \<and>
   (\<exists>cancel h1 h2.
      OnChange 0 (Some (recorder (1::nat))) (snd (Local ([] :: (Config, (nat \<times> Config) list) store)))
        = Inr (cancel, h1) \<and>
      Update 0 (Config ''updated secret'') h1 [] = Inr (None, h2, [(1, Config ''updated secret'')]) \<and>
      Get 0 h2 = Inr (Config ''updated secret''))"
  using OnChange_then_Update [of 0 "snd (Local ([] :: (Config, (nat \<times> Config) list) store))"
      "recorder (1::nat)" "Config ''updated secret''" "[]"]
  by (simp add: Local_def recorder_def)

text \<open>
  Claim C4, as the code has it. The handle that \<^verbatim>\<open>OnChange(cb)\<close> returns sets the
  holder's callback to nil, whatever the callback is at that moment. Called while \<open>cb\<close>
  is registered it removes \<open>cb\<close>, and a later \<^verbatim>\<open>Update\<close> runs no observer; called a
  second time it changes nothing. Called after a newer callback \<open>cb'\<close> has replaced
  \<open>cb\<close>, it removes \<open>cb'\<close>, and a later \<^verbatim>\<open>Update\<close> runs no observer either.
\<close>

theorem cancel_clears_slot:
  assumes "m < length h"
  shows "\<exists>cancel h1. OnChange m (Some cb) h = Inr (cancel, h1) \<and>
           (\<exists>h2 h3. cancel h1 = Inr h2 \<and> callback (h2 ! m) = None \<and>
              cancel h2 = Inr h2 \<and> Update m v h2 w = Inr (None, h3, w)) \<and>
           (\<exists>cancel' h1' h2' h3'. OnChange m (Some cb') h1 = Inr (cancel', h1') \<and>
              callback (h1' ! m) = Some cb' \<and>
              cancel h1' = Inr h2' \<and> callback (h2' ! m) = None \<and>
              Update m v h2' w = Inr (None, h3', w))"
  using assms by (simp add: OnChange_def OnChange_cancel_def Update_def Let_def)

text \<open>The theorem of C4 with two logging observers: the log stays empty both times.\<close>

theorem cancel_clears_slot_witness:
  "(0::nat) < length (snd (Local ([] :: (Config, (nat \<times> Config) list) store))) \<and>
   (\<exists>cancel h1.
      OnChange 0 (Some (recorder (1::nat))) (snd (Local ([] :: (Config, (nat \<times> Config) list) store)))
        = Inr (cancel, h1) \<and>
      (\<exists>h2 h3. cancel h1 = Inr h2 \<and> callback (h2 ! 0) = None \<and> cancel h2 = Inr h2 \<and>
         Update 0 (Config ''updated secret'') h2 [] = Inr (None, h3, [])) \<and>
      (\<exists>cancel' h1' h2' h3'. OnChange 0 (Some (recorder 2)) h1 = Inr (cancel', h1') \<and>
         callback (h1' ! 0) = Some (recorder 2) \<and>
         cancel h1' = Inr h2' \<and> callback (h2' ! 0) = None \<and>
         Update 0 (Config ''updated secret'') h2' [] = Inr (None, h3', [])))"
  using cancel_clears_slot [of 0 "snd (Local ([] :: (Config, (nat \<times> Config) list) store))"
      "recorder (1::nat)" "Config ''updated secret''" "[]" "recorder 2"]
  by (simp add: Local_def)

text \<open>
  Claim C4 as it is stated says that the handle of a replaced callback does nothing,
  so that the newer callback keeps firing. On the code it does not: observer 1 is
  registered, observer 2 replaces it, the handle of observer 1 is called, and the
  \<^verbatim>\<open>Update\<close> that follows leaves the log empty, where the claim expects the entry of
  observer 2.
\<close>

theorem stale_cancel_counterexample:
  "(case OnChange 0 (Some (recorder (1::nat))) (snd (Local [])) of
      Inl p \<Rightarrow> False
    | Inr (cancel1, h1) \<Rightarrow>
        (case OnChange 0 (Some (recorder 2)) h1 of
           Inl p \<Rightarrow> False
         | Inr (cancel2, h2) \<Rightarrow>
             (case cancel1 h2 of
                Inl p \<Rightarrow> False
              | Inr h3 \<Rightarrow>
                  (case Update 0 (Config ''updated secret'') h3 [] of
                     Inl p \<Rightarrow> False
                   | Inr (e, h4, tr) \<Rightarrow>
                       tr = [] \<and> tr \<noteq> [(2, Config ''updated secret'')]))))"
  by (simp add: Local_def OnChange_def OnChange_cancel_def Update_def)

text \<open>
  Claim C5. A holder has one callback field, so at most one observer is registered at
  any time, and \<^verbatim>\<open>Update\<close> runs that one observer or none. Registering \<open>cb2\<close> after
  \<open>cb1\<close> leaves the very store that registering \<open>cb2\<close> alone leaves: nothing of \<open>cb1\<close>
  remains, so no later call on the holder can run it. The next \<^verbatim>\<open>Update(v)\<close> runs
  \<open>cb2\<close>, once, on \<open>v\<close>.
\<close>

theorem OnChange_replaces:
  assumes "m < length h"
  shows "\<exists>cancel1 h1 cancel2 h2 h3 h4.
           OnChange m (Some cb1) h = Inr (cancel1, h1) \<and>
           OnChange m (Some cb2) h1 = Inr (cancel2, h2) \<and>
           OnChange m (Some cb2) h = Inr (cancel2, h2) \<and>
           callback (h2 ! m) = Some cb2 \<and>
           Update m v h2 w = Inr (None, h3, cb2 v w) \<and>
           Update m v h w =
             Inr (None, h4, case callback (h ! m) of None \<Rightarrow> w | Some cb \<Rightarrow> cb v w)"
  using assms
  by (cases "callback (h ! m)") (simp_all add: OnChange_def Update_def Let_def)

text \<open>
  The theorem of C5 with two logging observers: the log after the \<^verbatim>\<open>Update\<close> holds
  the entry of observer 2 and none of observer 1; on the holder with no observer the
  log stays empty.
\<close>

theorem OnChange_replaces_witness:
  "(0::nat) < length (snd (Local ([] :: (Config, (nat \<times> Config) list) store))) \<and>
   (\<exists>cancel1 h1 cancel2 h2 h3 h4.
      OnChange 0 (Some (recorder (1::nat))) (snd (Local ([] :: (Config, (nat \<times> Config) list) store)))
        = Inr (cancel1, h1) \<and>
      OnChange 0 (Some (recorder 2)) h1 = Inr (cancel2, h2) \<and>
      OnChange 0 (Some (recorder 2)) (snd (Local ([] :: (Config, (nat \<times> Config) list) store)))
        = Inr (cancel2, h2) \<and>
      callback (h2 ! 0) = Some (recorder 2) \<and>
      Update 0 (Config ''updated secret'') h2 [] = Inr (None, h3, [(2, Config ''updated secret'')]) \<and>
      Update 0 (Config ''updated secret'') (snd (Local ([] :: (Config, (nat \<times> Config) list) store))) []
        = Inr (None, h4, []))"
  using OnChange_replaces [of 0 "snd (Local ([] :: (Config, (nat \<times> Config) list) store))"
      "recorder (1::nat)" "recorder 2" "Config ''updated secret''" "[]"]
  by (simp add: Local_def recorder_def)

section \<open>Zero and non-zero holders\<close>

text \<open>
  A holder is uninitialised when the zero test of \<^verbatim>\<open>InitData\<close> answers true on its
  value. For every reflection \<open>rf\<close>: one call keeps a holder on which the test answers
  false in that state, without a panic, unless it is an \<^verbatim>\<open>Update\<close> with a value on
  which the test does not answer false.
\<close>

lemma step_keeps_nonzero:
  assumes "m < length h" and "isZeroValue rf (data (h ! m)) = Inr False"
    and "\<And>v. c = CallUpdate v \<Longrightarrow> isZeroValue rf v = Inr False"
  shows "\<exists>h' w'. step rf m c (h, w) = Inr (h', w') \<and> m < length h' \<and>
           isZeroValue rf (data (h' ! m)) = Inr False"
proof (cases c)
  case CallGet
  with assms show ?thesis by (simp add: Get_def)
next
  case (CallUpdate v)
  with assms show ?thesis
    by (cases "callback (h ! m)") (simp_all add: Update_def Let_def)
next
  case (CallOnChange cb)
  with assms show ?thesis by (simp add: OnChange_def)
next
  case CallCancel
  with assms show ?thesis by (simp add: OnChange_cancel_def)
next
  case CallWatch
  with assms show ?thesis by (simp add: Watch_def)
next
  case (CallInitData v)
  with assms show ?thesis by (simp add: InitData_def)
qed

lemma run_keeps_nonzero:
  assumes "m < length h" and "isZeroValue rf (data (h ! m)) = Inr False"
    and "\<forall>v. CallUpdate v \<in> set cs \<longrightarrow> isZeroValue rf v = Inr False"
  shows "\<exists>h' w'. run rf m cs (h, w) = Inr (h', w') \<and> m < length h' \<and>
           isZeroValue rf (data (h' ! m)) = Inr False"
  using assms
proof (induction cs arbitrary: h w)
  case Nil
  then show ?case by simp
next
  case (Cons c cs)
  from Cons.prems have "\<And>v. c = CallUpdate v \<Longrightarrow> isZeroValue rf v = Inr False"
    by simp
  with Cons.prems obtain h1 w1 where
    s: "step rf m c (h, w) = Inr (h1, w1)" and l: "m < length h1"
    and z: "isZeroValue rf (data (h1 ! m)) = Inr False"
    using step_keeps_nonzero [of m h rf c w] by blast
  from Cons.prems have "\<forall>v. CallUpdate v \<in> set cs \<longrightarrow> isZeroValue rf v = Inr False"
    by simp
  from Cons.IH [OF l z this, of w1] s show ?case by simp
qed

text \<open>
  Claim C6, as the code has it, for a holder whose element type \<^verbatim>\<open>T\<close> is not an
  interface type. A holder whose value is not the zero value of \<^verbatim>\<open>T\<close> keeps a
  non-zero value through every sequence of calls (\<^verbatim>\<open>Get\<close>, \<^verbatim>\<open>OnChange\<close>, a cancel
  handle, \<^verbatim>\<open>Watch\<close>, \<^verbatim>\<open>InitData\<close>, \<^verbatim>\<open>Update\<close>) in which no \<^verbatim>\<open>Update\<close> carries the
  zero value, and no call of such a sequence panics. After \<^verbatim>\<open>Update(v)\<close> with \<open>v\<close> not
  the zero value, \<^verbatim>\<open>InitData(u)\<close> leaves the store as it is, for every \<open>u\<close>. After
  \<^verbatim>\<open>Update(v)\<close> with \<open>v\<close> the zero value the holder is zero-valued again, and
  \<^verbatim>\<open>InitData(u)\<close> stores \<open>u\<close>. (What the zero test does on a holder of an interface
  type is no part of this statement.)
\<close>

theorem nonzero_is_kept:
  assumes "m < length h"
  shows "(data (h ! m) \<noteq> 0 \<longrightarrow>
            (\<forall>cs. (\<forall>v'. CallUpdate v' \<in> set cs \<longrightarrow> v' \<noteq> 0) \<longrightarrow>
               (\<exists>h' w'. run concreteT m cs (h, w) = Inr (h', w') \<and> m < length h' \<and>
                  data (h' ! m) \<noteq> 0))) \<and>
         (v \<noteq> 0 \<longrightarrow>
            (\<exists>h1 w1. Update m v h w = Inr (None, h1, w1) \<and> Get m h1 = Inr v \<and>
               InitData concreteT m u h1 = Inr (Some m, h1))) \<and>
         (v = 0 \<longrightarrow>
            (\<exists>h1 w1 h2. Update m v h w = Inr (None, h1, w1) \<and>
               InitData concreteT m u h1 = Inr (Some m, h2) \<and> Get m h2 = Inr u))"
proof -
  have A: "\<exists>h' w'. run concreteT m cs (h, w) = Inr (h', w') \<and> m < length h' \<and>
      data (h' ! m) \<noteq> 0"
    if "data (h ! m) \<noteq> 0" and "\<forall>v'. CallUpdate v' \<in> set cs \<longrightarrow> v' \<noteq> 0" for cs
    using run_keeps_nonzero [of m h concreteT cs w] assms that
    by (simp add: isZeroValue_concreteT)
  have B: "\<exists>h1 w1. Update m v h w = Inr (None, h1, w1) \<and> Get m h1 = Inr v \<and>
      InitData concreteT m u h1 = Inr (Some m, h1)" if "v \<noteq> 0"
    using assms that
    by (cases "callback (h ! m)")
      (simp_all add: Update_def Let_def Get_def InitData_def isZeroValue_concreteT)
  have C: "\<exists>h1 w1 h2. Update m v h w = Inr (None, h1, w1) \<and>
      InitData concreteT m u h1 = Inr (Some m, h2) \<and> Get m h2 = Inr u" if "v = 0"
    using assms that
    by (cases "callback (h ! m)")
      (simp_all add: Update_def Let_def Get_def InitData_def isZeroValue_concreteT)
  from A B C show ?thesis by blast
qed

text \<open>
  The theorem of C6 on the holder that \<^verbatim>\<open>main\<close> sets up (value
  \<^verbatim>\<open>Config{Secret: "hello world"}\<close>): a run of four calls, an \<^verbatim>\<open>Update\<close> with a non-zero
  value followed by \<^verbatim>\<open>InitData\<close>, and an \<^verbatim>\<open>Update\<close> with the zero value followed by
  \<^verbatim>\<open>InitData\<close>.
\<close>

theorem nonzero_is_kept_witness:
  "(0::nat) < length [\<lparr>data = Config ''hello world'', callback = None :: (Config \<Rightarrow> unit \<Rightarrow> unit) option\<rparr>] \<and>
   Config ''hello world'' \<noteq> 0 \<and>
   Config ''updated secret'' \<noteq> 0 \<and>
   Config [] = 0 \<and>
   (\<exists>h' w'. run concreteT 0
        [CallInitData (Config ''second''), CallUpdate (Config ''updated secret''),
         CallCancel, CallGet]
        ([\<lparr>data = Config ''hello world'', callback = None\<rparr>], ()) = Inr (h', w') \<and>
      0 < length h' \<and> data (h' ! 0) \<noteq> 0) \<and>
   (\<exists>h1 w1. Update 0 (Config ''updated secret'')
        [\<lparr>data = Config ''hello world'', callback = None\<rparr>] () = Inr (None, h1, w1) \<and>
      Get 0 h1 = Inr (Config ''updated secret'') \<and>
      InitData concreteT 0 (Config ''second'') h1 = Inr (Some 0, h1)) \<and>
   (\<exists>h1 w1 h2. Update 0 (Config [])
        [\<lparr>data = Config ''hello world'', callback = None\<rparr>] () = Inr (None, h1, w1) \<and>
      InitData concreteT 0 (Config ''second'') h1 = Inr (Some 0, h2) \<and>
      Get 0 h2 = Inr (Config ''second''))"
proof -
  let ?h = "[\<lparr>data = Config ''hello world'', callback = None :: (Config \<Rightarrow> unit \<Rightarrow> unit) option\<rparr>]"
  let ?cs = "[CallInitData (Config ''second''), CallUpdate (Config ''updated secret''),
      CallCancel, CallGet] :: (Config, unit) call list"
  have l: "(0::nat) < length ?h"
    by simp
  have z: "data (?h ! 0) \<noteq> 0" "Config ''hello world'' \<noteq> 0"
    "Config ''updated secret'' \<noteq> 0" "Config [] = 0"
    by (simp_all add: zero_Config_def)
  have u: "\<forall>v'. CallUpdate v' \<in> set ?cs \<longrightarrow> v' \<noteq> 0"
    by (simp add: zero_Config_def)
  from nonzero_is_kept [OF l, of "()" "Config ''updated secret''" "Config ''second''"] z u
  have a: "\<exists>h' w'. run concreteT 0 ?cs (?h, ()) = Inr (h', w') \<and> 0 < length h' \<and>
      data (h' ! 0) \<noteq> 0"
    and b: "\<exists>h1 w1. Update 0 (Config ''updated secret'') ?h () = Inr (None, h1, w1) \<and>
      Get 0 h1 = Inr (Config ''updated secret'') \<and>
      InitData concreteT 0 (Config ''second'') h1 = Inr (Some 0, h1)"
    by blast+
  from nonzero_is_kept [OF l, of "()" "Config []" "Config ''second''"] z
  have c: "\<exists>h1 w1 h2. Update 0 (Config []) ?h () = Inr (None, h1, w1) \<and>
      InitData concreteT 0 (Config ''second'') h1 = Inr (Some 0, h2) \<and>
      Get 0 h2 = Inr (Config ''second'')"
    by blast
  from l z a b c show ?thesis
    by blast
qed

text \<open>
  Claim C6 as it is stated says that after any \<^verbatim>\<open>Update(v)\<close> a following
  \<^verbatim>\<open>InitData(u)\<close> leaves the stored value unchanged, for every \<open>v\<close>. At the zero value
  it does not: on a holder fresh from \<^verbatim>\<open>Local\<close>, \<^verbatim>\<open>Update(Config{})\<close> stores the zero
  \<^verbatim>\<open>Config\<close>, and \<^verbatim>\<open>InitData(Config{Secret: "hello world"})\<close> then replaces it.
\<close>

theorem Update_zero_then_InitData_counterexample:
  "(case Update 0 (Config []) (snd (Local [])) () of
      Inl p \<Rightarrow> False
    | Inr (e, h1, w1) \<Rightarrow>
        (case InitData concreteT 0 (Config ''hello world'') h1 of
           Inl p \<Rightarrow> False
         | Inr (r, h2) \<Rightarrow>
             Get 0 h1 = Inr (Config []) \<and> Get 0 h2 = Inr (Config ''hello world'') \<and>
             Get 0 h2 \<noteq> Get 0 h1))"
  by (simp add: Local_def Update_def InitData_def Get_def isZeroValue_concreteT zero_Config_def)

section \<open>The backend-fed holder\<close>

text \<open>
  Claim C8, as the code has it. Every call of \<^verbatim>\<open>Etcd\<close> returns the nil
  \<^verbatim>\<open>Manager\<close>: it does not panic and reports nothing.
\<close>

theorem Etcd_returns_nil: "Etcd = Inr None \<and> (\<forall>p. Etcd \<noteq> Inl p)"
  by (simp add: Etcd_def)

text \<open>
  Claim C8 as it is stated says that \<^verbatim>\<open>Etcd\<close> never yields the absent handle without a
  failure. It does.
\<close>

theorem Etcd_absent_handle_counterexample: "\<not> (Etcd \<noteq> Inr None)"
  by (simp add: Etcd_def)

end
